theory Spec2Isabelle
  imports Complex_Main "HOL-Library.AList"
begin

section \<open>Python values\<close>

text \<open>
  The bridge handles values that come out of JSON documents (registry replies, batch
  command payloads) and the floats its own scaling produces. A dict read from JSON has
  string keys and keeps its insertion order, so it is an association list.
  Floats are modelled by rationals: the quotient of the scaling is exact here, the
  rounding to a double (and the OverflowError of a huge int) is not modelled.
\<close>

datatype pyval =
    PNone
  | PBool bool
  | PInt int
  | PFloat rat
  | PStr string
  | PList "pyval list"
  | PDict "(string \<times> pyval) list"

text \<open>
  Exceptions are values. \<open>ExternalError\<close> stands for whatever a collaborator (registry
  client, sink, JSON parser) raises; every one of them is a subclass of Exception.
\<close>

datatype exn =
    KeyError
  | TypeError
  | AttributeError
  | UnboundLocalError
  | JSONDecodeError
  | ExternalError string

text \<open>Truth value testing, as \<open>if x\<close> and \<open>not x\<close> do it.\<close>

fun truthy :: "pyval \<Rightarrow> bool" where
  "truthy PNone = False"
| "truthy (PBool b) = b"
| "truthy (PInt i) = (i \<noteq> 0)"
| "truthy (PFloat r) = (r \<noteq> 0)"
| "truthy (PStr s) = (s \<noteq> [])"
| "truthy (PList xs) = (xs \<noteq> [])"
| "truthy (PDict d) = (d \<noteq> [])"

text \<open>Lists and dicts are unhashable: using one as a dict key raises TypeError.\<close>

fun hashable :: "pyval \<Rightarrow> bool" where
  "hashable (PList xs) = False"
| "hashable (PDict d) = False"
| "hashable v = True"

text \<open>\<open>d.get(k, default)\<close> on a dict with string keys.\<close>

definition dict_get :: "(string \<times> pyval) list \<Rightarrow> string \<Rightarrow> pyval \<Rightarrow> pyval" where
  "dict_get d k dflt = (case map_of d k of None \<Rightarrow> dflt | Some v \<Rightarrow> v)"

text \<open>
  \<open>for item in x\<close>: a list yields its elements, a dict its keys, a string its
  characters; anything else is not iterable.
\<close>

definition py_iter :: "pyval \<Rightarrow> exn + pyval list" where
  "py_iter x =
     (case x of
        PList xs \<Rightarrow> Inr xs
      | PDict d \<Rightarrow> Inr (map (\<lambda>kv. PStr (fst kv)) d)
      | PStr s \<Rightarrow> Inr (map (\<lambda>c. PStr [c]) s)
      | _ \<Rightarrow> Inl TypeError)"

section \<open>Strings\<close>

text \<open>
  \<open>str.upper()\<close> on the ASCII letters; other bytes are left as they are (the case
  mapping of non-ASCII code points is not modelled).
\<close>

definition upper_char :: "char \<Rightarrow> char" where
  "upper_char c =
     (case map_of (zip ''abcdefghijklmnopqrstuvwxyz'' ''ABCDEFGHIJKLMNOPQRSTUVWXYZ'') c of
        None \<Rightarrow> c
      | Some u \<Rightarrow> u)"

definition str_upper :: "string \<Rightarrow> string" where
  "str_upper s = map upper_char s"

text \<open>\<open>s.split(c)\<close>: every occurrence of the separator cuts, empty pieces are kept.\<close>

fun split_on :: "char \<Rightarrow> string \<Rightarrow> string list" where
  "split_on c [] = [[]]"
| "split_on c (x # xs) =
     (if x = c then [] # split_on c xs
      else (case split_on c xs of
              [] \<Rightarrow> [[x]]
            | w # ws \<Rightarrow> (x # w) # ws))"

definition startswith :: "string \<Rightarrow> string \<Rightarrow> bool" where
  "startswith s p = (take (length p) s = p)"

text \<open>Decimal rendering of an int, as \<open>str\<close> gives it.\<close>

definition digit_char :: "nat \<Rightarrow> char" where
  "digit_char n = ''0123456789'' ! n"

fun str_nat :: "nat \<Rightarrow> string" where
  "str_nat n = (if n < 10 then [digit_char n] else str_nat (n div 10) @ [digit_char (n mod 10)])"

declare str_nat.simps [simp del]

definition str_int :: "int \<Rightarrow> string" where
  "str_int i = (if i < 0 then CHR ''-'' # str_nat (nat (- i)) else str_nat (nat i))"

section \<open>Configuration\<close>

definition MQTT_TOPIC_PREFIX :: string where
  "MQTT_TOPIC_PREFIX = ''tuya''"

text \<open>The two device names the logging gate compares with (lines 352, 360, 366).\<close>

definition DIN_RAIL :: pyval where
  "DIN_RAIL = PStr ''Din Rail Wi-Fi Switch with metering''"

definition TWO_CH :: pyval where
  "TWO_CH = PStr ''WiFi Smart 2CH Touch Switch''"

section \<open>Collaborators and observable events\<close>

text \<open>The record handed to \<open>collection.insert_one\<close> (lines 372-378).\<close>

record doc =
  doc_timestamp :: int
  doc_device_id :: pyval
  doc_device_name :: pyval
  doc_status :: "(pyval \<times> pyval) list"
  doc_source :: string

text \<open>
  What is handed to \<open>mqtt_client.publish\<close> as payload: a plain string, or the argument
  of \<open>json.dumps\<close> kept as a structure (the JSON text itself is not modelled).
\<close>

datatype payload =
    Text string
  | Telemetry pyval pyval "(pyval \<times> pyval) list" int pyval
  | Discovery pyval pyval string string
  | BatchSuccess "(string \<times> pyval) list"
  | BatchError pyval

text \<open>One tag per \<open>print\<close> statement of the handler and of the polling loop.\<close>

datatype console =
    DebugTopic | DebugPayload | CommandReceived
  | CommandSent | CommandFailed
  | JsonCommandSent | JsonCommandFailed
  | NoValidCommands | JsonParseFailed
  | HandlerError exn
  | Separator | DeviceHeader | Dashes | ItemLine
  | DinRailOff | SkippedMainPowerOff | SkippedDependent
  | Saved | SaveFailed exn
  | PollCompleted | PollError exn

text \<open>
  Everything the program does to the outside world, in the order it does it: calls of
  the registry client, publishes on the bus, inserts into the sink, console lines.
\<close>

datatype event =
    GetStatus pyval
  | SendCommand string "(string \<times> pyval) list"
  | Publish string payload bool
  | InsertOne doc
  | Print console

text \<open>
  The collaborators are parameters. \<open>Inl e\<close> means the call raised \<open>e\<close>.
  \<open>collection\<close> is None when the sink is not available (lines 108-113).
  \<open>str_other\<close> is \<open>str\<close> on floats, lists and dicts.
  \<open>time_time\<close> is \<open>int(time.time())\<close> and \<open>datetime_now\<close> is \<open>datetime.now()\<close>
  at the moment the device with the given id is handled.
\<close>

record env =
  getstatus :: "pyval \<Rightarrow> exn + pyval"
  sendcommand :: "string \<Rightarrow> (string \<times> pyval) list \<Rightarrow> exn + pyval"
  json_loads :: "string \<Rightarrow> exn + pyval"
  collection :: "(doc \<Rightarrow> exn option) option"
  str_other :: "pyval \<Rightarrow> string"
  time_time :: "pyval \<Rightarrow> int"
  datetime_now :: "pyval \<Rightarrow> int"

text \<open>\<open>str(v)\<close>, which is also what an f-string inserts.\<close>

definition py_str :: "env \<Rightarrow> pyval \<Rightarrow> string" where
  "py_str env v =
     (case v of
        PNone \<Rightarrow> ''None''
      | PBool b \<Rightarrow> (if b then ''True'' else ''False'')
      | PInt i \<Rightarrow> str_int i
      | PStr s \<Rightarrow> s
      | _ \<Rightarrow> str_other env v)"

section \<open>Scaling (lines 274-280)\<close>

text \<open>
  \<open>value / 10.0\<close>: true division by a float. It is defined on int, bool (an int
  subclass: True is 1) and float; on any other operand Python raises TypeError.
\<close>

definition truediv :: "pyval \<Rightarrow> rat \<Rightarrow> exn + pyval" where
  "truediv v d =
     (case v of
        PInt i \<Rightarrow> Inr (PFloat (of_int i / d))
      | PBool b \<Rightarrow> Inr (PFloat ((if b then 1 else 0) / d))
      | PFloat r \<Rightarrow> Inr (PFloat (r / d))
      | _ \<Rightarrow> Inl TypeError)"

definition scale :: "pyval \<Rightarrow> pyval \<Rightarrow> exn + pyval" where
  "scale code v =
     (if code = PStr ''cur_voltage'' then truediv v 10
      else if code = PStr ''cur_power'' then truediv v 10
      else if code = PStr ''add_ele'' then truediv v 1000
      else Inr v)"

section \<open>The polling loop (lines 245-392)\<close>

text \<open>The payload of a per-code publish (lines 288-291).\<close>

definition format_value :: "env \<Rightarrow> pyval \<Rightarrow> string" where
  "format_value env v =
     (case v of
        PBool b \<Rightarrow> (if b then ''ON'' else ''OFF'')
      | _ \<Rightarrow> py_str env v)"

definition state_topic :: "env \<Rightarrow> pyval \<Rightarrow> pyval \<Rightarrow> string" where
  "state_topic env device_id code =
     MQTT_TOPIC_PREFIX @ ''/'' @ py_str env device_id @ ''/'' @ py_str env code @ ''/state''"

definition telemetry_topic :: "env \<Rightarrow> pyval \<Rightarrow> string" where
  "telemetry_topic env device_id = MQTT_TOPIC_PREFIX @ ''/'' @ py_str env device_id @ ''/telemetry''"

definition discovery_topic :: "env \<Rightarrow> pyval \<Rightarrow> string" where
  "discovery_topic env device_id = ''discovery/device/'' @ py_str env device_id @ ''/config''"

definition command_topic :: "env \<Rightarrow> pyval \<Rightarrow> string" where
  "command_topic env device_id = MQTT_TOPIC_PREFIX @ ''/'' @ py_str env device_id @ ''/set''"

text \<open>
  One pass of the body of \<open>for item in status_list\<close> (lines 271-319). An item that is
  not a dict, or a dict without \<open>code\<close>, is passed over. \<open>item['value']\<close> raises
  KeyError when the key is missing, the scaling may raise TypeError, and
  \<open>device_data[code] = value\<close> raises TypeError on an unhashable code. The dict
  \<open>device_data\<close> is keyed by the codes as they come; Python identifies the keys 1, 1.0
  and True, the model keeps them apart (registry codes are strings, where both agree).
\<close>

definition process_item ::
  "env \<Rightarrow> pyval \<Rightarrow> (pyval \<times> pyval) list \<Rightarrow> pyval \<Rightarrow> event list \<times> (exn + (pyval \<times> pyval) list)" where
  "process_item env device_id device_data item =
     (case item of
        PDict d \<Rightarrow>
          (case map_of d ''code'' of
             None \<Rightarrow> ([], Inr device_data)
           | Some code \<Rightarrow>
               (case map_of d ''value'' of
                  None \<Rightarrow> ([], Inl KeyError)
                | Some raw \<Rightarrow>
                    (case scale code raw of
                       Inl e \<Rightarrow> ([], Inl e)
                     | Inr v \<Rightarrow>
                         if hashable code
                         then ([Publish (state_topic env device_id code) (Text (format_value env v)) True,
                                Print ItemLine],
                               Inr (AList.update code v device_data))
                         else ([], Inl TypeError))))
      | _ \<Rightarrow> ([], Inr device_data))"

text \<open>The loop over the items: it stops at the first exception, keeping what was published.\<close>

fun process_items ::
  "env \<Rightarrow> pyval \<Rightarrow> (pyval \<times> pyval) list \<Rightarrow> pyval list \<Rightarrow> event list \<times> (exn + (pyval \<times> pyval) list)" where
  "process_items env device_id device_data [] = ([], Inr device_data)"
| "process_items env device_id device_data (item # items) =
     (case process_item env device_id device_data item of
        (ev, Inl e) \<Rightarrow> (ev, Inl e)
      | (ev, Inr device_data') \<Rightarrow>
          (case process_items env device_id device_data' items of
             (ev', r) \<Rightarrow> (ev @ ev', r)))"

text \<open>
  The logging gate (lines 349-369), given the global \<open>din_rail_is_on\<close>, the device name
  and the scaled data: the console lines, the new value of the global, and
  \<open>should_log\<close>.
\<close>

definition logging_gate ::
  "pyval \<Rightarrow> pyval \<Rightarrow> (pyval \<times> pyval) list \<Rightarrow> event list \<times> pyval \<times> bool" where
  "logging_gate din_rail_is_on device_name device_data =
     (let (ev, din_rail_is_on') =
            (if device_name = DIN_RAIL then
               (case map_of device_data (PStr ''switch'') of
                  None \<Rightarrow> ([], din_rail_is_on)
                | Some switch_status \<Rightarrow>
                    if switch_status = PNone then ([], din_rail_is_on)
                    else (if switch_status = PBool False then [Print DinRailOff] else [],
                          switch_status))
             else ([], din_rail_is_on))
      in if device_name = DIN_RAIL then
           (if \<not> truthy din_rail_is_on' then (ev @ [Print SkippedMainPowerOff], din_rail_is_on', False)
            else (ev, din_rail_is_on', True))
         else if device_name = TWO_CH then
           (if \<not> truthy din_rail_is_on' then (ev @ [Print SkippedDependent], din_rail_is_on', False)
            else (ev, din_rail_is_on', True))
         else (ev, din_rail_is_on', True))"

text \<open>
  Lines 261-383, entered when the reply is a dict holding \<open>result\<close>: header lines, the
  items, the telemetry and discovery publishes, then the gate and the insert when there
  is a collection. The insert has its own \<open>try\<close>: what it raises is printed and goes
  no further.
\<close>

definition process_status ::
  "env \<Rightarrow> pyval \<Rightarrow> pyval \<Rightarrow> pyval \<Rightarrow> (string \<times> pyval) list \<Rightarrow> pyval \<Rightarrow> event list \<times> exn option \<times> pyval" where
  "process_status env din_rail_is_on device_id device_name data status_list =
     (let header = [Print Separator, Print DeviceHeader, Print Dashes] in
      case py_iter status_list of
        Inl e \<Rightarrow> (header, Some e, din_rail_is_on)
      | Inr items \<Rightarrow>
          (case process_items env device_id [] items of
             (ev, Inl e) \<Rightarrow> (header @ ev, Some e, din_rail_is_on)
           | (ev, Inr device_data) \<Rightarrow>
               (let full_topic = telemetry_topic env device_id;
                    pubs = [Publish full_topic
                              (Telemetry device_name device_id device_data (time_time env device_id)
                                 (dict_get data ''t'' (PInt 0))) True,
                            Publish (discovery_topic env device_id)
                              (Discovery device_name device_id full_topic (command_topic env device_id)) True]
                in case collection env of
                     None \<Rightarrow> (header @ ev @ pubs, None, din_rail_is_on)
                   | Some insert_one \<Rightarrow>
                       (case logging_gate din_rail_is_on device_name device_data of
                          (gev, din_rail_is_on', should_log) \<Rightarrow>
                            if should_log then
                              (let d = \<lparr>doc_timestamp = datetime_now env device_id,
                                        doc_device_id = device_id,
                                        doc_device_name = device_name,
                                        doc_status = device_data,
                                        doc_source = ''tuya_cloud_mqtt_bridge''\<rparr>
                               in (header @ ev @ pubs @ gev @
                                     [InsertOne d,
                                      Print (case insert_one d of None \<Rightarrow> Saved | Some e \<Rightarrow> SaveFailed e)],
                                   None, din_rail_is_on'))
                            else (header @ ev @ pubs @ gev, None, din_rail_is_on')))))"

text \<open>
  The body of \<open>for device in devices\<close> (lines 249-383) for one device, a dict. The
  second component is the exception that leaves the body, if any.
\<close>

definition process_device ::
  "env \<Rightarrow> pyval \<Rightarrow> (string \<times> pyval) list \<Rightarrow> event list \<times> exn option \<times> pyval" where
  "process_device env din_rail_is_on device =
     (let device_id = dict_get device ''id'' PNone;
          device_name = dict_get device ''name'' (PStr ''Unknown'')
      in if \<not> truthy device_id then ([], None, din_rail_is_on)
         else
           (case getstatus env device_id of
              Inl e \<Rightarrow> ([GetStatus device_id], Some e, din_rail_is_on)
            | Inr data \<Rightarrow>
                (case data of
                   PDict dd \<Rightarrow>
                     (case map_of dd ''result'' of
                        None \<Rightarrow> ([GetStatus device_id], None, din_rail_is_on)
                      | Some status_list \<Rightarrow>
                          (case process_status env din_rail_is_on device_id device_name dd status_list of
                             (ev, r, din_rail_is_on') \<Rightarrow> (GetStatus device_id # ev, r, din_rail_is_on')))
                 | _ \<Rightarrow> ([GetStatus device_id], None, din_rail_is_on))))"

text \<open>
  The \<open>for\<close> loop: devices in list order; an exception leaving the body leaves the
  loop, the devices after it are not visited.
\<close>

fun run_devices ::
  "env \<Rightarrow> pyval \<Rightarrow> (string \<times> pyval) list list \<Rightarrow> event list \<times> exn option \<times> pyval" where
  "run_devices env din_rail_is_on [] = ([], None, din_rail_is_on)"
| "run_devices env din_rail_is_on (device # devices) =
     (case process_device env din_rail_is_on device of
        (ev, Some e, din_rail_is_on') \<Rightarrow> (ev, Some e, din_rail_is_on')
      | (ev, None, din_rail_is_on') \<Rightarrow>
          (case run_devices env din_rail_is_on' devices of
             (ev', r, din_rail_is_on'') \<Rightarrow> (ev @ ev', r, din_rail_is_on'')))"

text \<open>
  One turn of \<open>while True\<close> (lines 247-389): the loop over the devices inside the
  \<open>try\<close>, then the heartbeat line, or the line of the \<open>except\<close> that catches whatever
  left the loop.
\<close>

definition run_cycle ::
  "env \<Rightarrow> pyval \<Rightarrow> (string \<times> pyval) list list \<Rightarrow> event list \<times> pyval" where
  "run_cycle env din_rail_is_on devices =
     (case run_devices env din_rail_is_on devices of
        (ev, None, din_rail_is_on') \<Rightarrow> (ev @ [Print PollCompleted], din_rail_is_on')
      | (ev, Some e, din_rail_is_on') \<Rightarrow> (ev @ [Print (PollError e)], din_rail_is_on'))"

text \<open>
  Successive turns of the loop, one environment per turn (the collaborators answer
  differently from one poll to the next); the device list is the one fetched at startup.
\<close>

fun run_cycles ::
  "env list \<Rightarrow> pyval \<Rightarrow> (string \<times> pyval) list list \<Rightarrow> event list \<times> pyval" where
  "run_cycles [] din_rail_is_on devices = ([], din_rail_is_on)"
| "run_cycles (env # envs) din_rail_is_on devices =
     (case run_cycle env din_rail_is_on devices of
        (ev, din_rail_is_on') \<Rightarrow>
          (case run_cycles envs din_rail_is_on' devices of
             (ev', din_rail_is_on'') \<Rightarrow> (ev @ ev', din_rail_is_on'')))"

text \<open>The initial value of the global (line 239).\<close>

definition din_rail_is_on_init :: pyval where
  "din_rail_is_on_init = PBool True"

section \<open>The command handler \<open>on_message\<close> (lines 136-226)\<close>

text \<open>The value of a single-attribute command (line 158).\<close>

definition command_value :: "string \<Rightarrow> pyval" where
  "command_value payload =
     (if str_upper payload \<in> set [''ON'', ''OFF''] then PBool (str_upper payload = ''ON'')
      else PStr payload)"

text \<open>\<open>result.get('success')\<close>: only a dict has \<open>get\<close>.\<close>

definition result_success :: "pyval \<Rightarrow> exn + pyval" where
  "result_success result =
     (case result of
        PDict d \<Rightarrow> Inr (dict_get d ''success'' PNone)
      | _ \<Rightarrow> Inl AttributeError)"

text \<open>
  CASE 1 (lines 152-178). The function body contains \<open>import json\<close> (line 185, in the
  other branch), and a name bound anywhere in a function body is local to the whole
  body. So in this branch \<open>json\<close> is a local variable that has no value yet, and
  evaluating the argument \<open>json.dumps(...)\<close> of either \<open>publish\<close> call (lines 170,
  178) raises UnboundLocalError before anything is published. The line printed just
  before is kept.
\<close>

definition single_command :: "env \<Rightarrow> string list \<Rightarrow> string \<Rightarrow> event list \<times> exn option" where
  "single_command env parts payload =
     (let device_id = parts ! 1;
          code = parts ! 2;
          commands = [(code, command_value payload)]
      in case sendcommand env device_id commands of
           Inl e \<Rightarrow> ([SendCommand device_id commands], Some e)
         | Inr result \<Rightarrow>
             (case result_success result of
                Inl e \<Rightarrow> ([SendCommand device_id commands], Some e)
              | Inr success \<Rightarrow>
                  if truthy success
                  then ([SendCommand device_id commands, Print CommandSent], Some UnboundLocalError)
                  else ([SendCommand device_id commands, Print CommandFailed], Some UnboundLocalError)))"

text \<open>The value of one recognised key of a batch command (lines 191-193).\<close>

definition batch_value :: "env \<Rightarrow> pyval \<Rightarrow> pyval" where
  "batch_value env v =
     (let val = v;
          val = (if str_upper (py_str env v) = ''ON'' then PBool True else val);
          val = (if str_upper (py_str env v) = ''OFF'' then PBool False else val)
      in val)"

text \<open>The command list built from the items of the payload (lines 188-194).\<close>

fun command_list :: "env \<Rightarrow> (string \<times> pyval) list \<Rightarrow> (string \<times> pyval) list" where
  "command_list env [] = []"
| "command_list env ((k, v) # items) =
     (if startswith k ''switch'' \<or> startswith k ''countdown''
      then (k, batch_value env v) # command_list env items
      else command_list env items)"

text \<open>The payload of the state echo of one command of a batch (line 212).\<close>

definition state_val :: "env \<Rightarrow> pyval \<Rightarrow> string" where
  "state_val env c_val =
     (if c_val = PBool True then ''ON''
      else if c_val = PBool False then ''OFF''
      else py_str env c_val)"

definition state_echo :: "env \<Rightarrow> string \<Rightarrow> string \<times> pyval \<Rightarrow> event" where
  "state_echo env device_id cmd =
     Publish (MQTT_TOPIC_PREFIX @ ''/'' @ device_id @ ''/'' @ fst cmd @ ''/state'')
       (Text (state_val env (snd cmd))) True"

definition response_topic :: "string \<Rightarrow> string" where
  "response_topic device_id = MQTT_TOPIC_PREFIX @ ''/'' @ device_id @ ''/response''"

text \<open>
  CASE 2 (lines 182-220), the body of the inner \<open>try\<close>. Here \<open>import json\<close> has run,
  so \<open>json.loads\<close> and \<open>json.dumps\<close> work. \<open>data.items()\<close> raises AttributeError
  when the payload parsed to something that is not a dict.
\<close>

definition batch_command :: "env \<Rightarrow> string list \<Rightarrow> string \<Rightarrow> event list \<times> exn option" where
  "batch_command env parts payload =
     (let device_id = parts ! 1 in
      case json_loads env payload of
        Inl e \<Rightarrow> ([], Some e)
      | Inr data \<Rightarrow>
          (case data of
             PDict items \<Rightarrow>
               (let cmds = command_list env items in
                if cmds \<noteq> [] then
                  (case sendcommand env device_id cmds of
                     Inl e \<Rightarrow> ([SendCommand device_id cmds], Some e)
                   | Inr result \<Rightarrow>
                       (case result_success result of
                          Inl e \<Rightarrow> ([SendCommand device_id cmds], Some e)
                        | Inr success \<Rightarrow>
                            if truthy success
                            then ([SendCommand device_id cmds, Print JsonCommandSent,
                                   Publish (response_topic device_id) (BatchSuccess cmds) False]
                                  @ map (state_echo env device_id) cmds, None)
                            else ([SendCommand device_id cmds, Print JsonCommandFailed,
                                   Publish (response_topic device_id) (BatchError result) False], None)))
                else ([Print NoValidCommands], None))
           | _ \<Rightarrow> ([], Some AttributeError)))"

text \<open>
  The handler: the three lines printed for every message, the split of the topic and
  the two cases. The inner \<open>except json.JSONDecodeError\<close> belongs to CASE 2 only; the
  outer \<open>except Exception\<close> catches everything else, so nothing leaves the handler.
\<close>

definition on_message :: "env \<Rightarrow> string \<Rightarrow> string \<Rightarrow> event list" where
  "on_message env topic payload =
     [Print DebugTopic, Print DebugPayload, Print CommandReceived] @
     (let parts = split_on CHR ''/'' topic in
      if length parts \<ge> 4 then
        (case single_command env parts payload of
           (ev, None) \<Rightarrow> ev
         | (ev, Some e) \<Rightarrow> ev @ [Print (HandlerError e)])
      else if length parts = 3 \<and> parts ! 2 = ''set'' then
        (case batch_command env parts payload of
           (ev, None) \<Rightarrow> ev
         | (ev, Some e) \<Rightarrow>
             if e = JSONDecodeError then ev @ [Print JsonParseFailed]
             else ev @ [Print (HandlerError e)])
      else [])"

section \<open>Reading a trace\<close>

fun is_publish :: "event \<Rightarrow> bool" where
  "is_publish (Publish t p r) = True"
| "is_publish e = False"

fun is_sendcommand :: "event \<Rightarrow> bool" where
  "is_sendcommand (SendCommand d c) = True"
| "is_sendcommand e = False"

fun is_insert :: "event \<Rightarrow> bool" where
  "is_insert (InsertOne d) = True"
| "is_insert e = False"

fun is_getstatus :: "event \<Rightarrow> bool" where
  "is_getstatus (GetStatus d) = True"
| "is_getstatus e = False"

text \<open>The lines the logging gate prints.\<close>

fun is_gate_line :: "event \<Rightarrow> bool" where
  "is_gate_line (Print DinRailOff) = True"
| "is_gate_line (Print SkippedMainPowerOff) = True"
| "is_gate_line (Print SkippedDependent) = True"
| "is_gate_line e = False"

text \<open>A trace without any insert and without any line of the gate.\<close>

definition quiet :: "event list \<Rightarrow> bool" where
  "quiet ev = (filter is_insert ev = [] \<and> filter is_gate_line ev = [])"

section \<open>Notions of the specification\<close>





text \<open>A registry reply that is a mapping containing the key \<open>result\<close>.\<close>

definition has_result :: "pyval \<Rightarrow> bool" where
  "has_result data = (case data of PDict d \<Rightarrow> map_of d ''result'' \<noteq> None | _ \<Rightarrow> False)"








section \<open>A concrete environment\<close>

text \<open>
  Collaborators with fixed answers, for evaluating the program on concrete inputs: a
  JSON parser that knows three payloads, a registry that accepts every command and whose
  status call times out, a sink that accepts every record.
\<close>

definition demo_loads :: "string \<Rightarrow> exn + pyval" where
  \<open>demo_loads s =
     (if s = ''{"switch_1":"ON","brightness":50}''
      then Inr (PDict [(''switch_1'', PStr ''ON''), (''brightness'', PInt 50)])
      else if s = ''{"brightness":50}''
      then Inr (PDict [(''brightness'', PInt 50)])
      else if s = ''{"switch_1":"on","countdown_1":60}''
      then Inr (PDict [(''switch_1'', PStr ''on''), (''countdown_1'', PInt 60)])
      else Inl JSONDecodeError)\<close>

definition demo_str :: "pyval \<Rightarrow> string" where
  "demo_str v = (if v = PFloat (2301 / 10) then ''230.1'' else ''[...]'')"

definition demo_env :: env where
  "demo_env =
     \<lparr>getstatus = (\<lambda>i. Inl (ExternalError ''timeout'')),
      sendcommand = (\<lambda>d c. Inr (PDict [(''success'', PBool True)])),
      json_loads = demo_loads,
      collection = Some (\<lambda>d. None),
      str_other = demo_str,
      time_time = (\<lambda>i. 0),
      datetime_now = (\<lambda>i. 0)\<rparr>"

text \<open>
  A registry with three devices: the Din Rail switch \<open>din1\<close> (its \<open>switch\<close> is the
  parameter, its voltage is 2301 in tenths of a volt), the 2CH switch \<open>sw2\<close>, and
  \<open>plug3\<close>, for which the registry answers with an error document. Every other id
  times out.
\<close>

definition din_rail_items :: "bool \<Rightarrow> pyval list" where
  "din_rail_items on =
     [PDict [(''code'', PStr ''switch''), (''value'', PBool on)],
      PDict [(''code'', PStr ''cur_voltage''), (''value'', PInt 2301)]]"

definition demo_status :: "bool \<Rightarrow> pyval \<Rightarrow> exn + pyval" where
  "demo_status on i =
     (if i = PStr ''din1'' then
        Inr (PDict [(''result'', PList (din_rail_items on)), (''t'', PInt 1700000000)])
      else if i = PStr ''sw2'' then
        Inr (PDict [(''result'', PList [PDict [(''code'', PStr ''switch_1''), (''value'', PBool True)]]),
                    (''t'', PInt 1700000001)])
      else if i = PStr ''plug3'' then
        Inr (PDict [(''code'', PInt 1106), (''msg'', PStr ''permission deny''), (''success'', PBool False)])
      else Inl (ExternalError ''timeout''))"

definition poll_env :: "bool \<Rightarrow> env" where
  "poll_env on = demo_env\<lparr>getstatus := demo_status on\<rparr>"

text \<open>The same, with a sink that refuses every record.\<close>

definition sink_down_env :: env where
  "sink_down_env = (poll_env True)\<lparr>collection := Some (\<lambda>d. Some (ExternalError ''sink down''))\<rparr>"

definition din_rail_dev :: "(string \<times> pyval) list" where
  "din_rail_dev = [(''id'', PStr ''din1''), (''name'', DIN_RAIL)]"

definition two_ch_dev :: "(string \<times> pyval) list" where
  "two_ch_dev = [(''id'', PStr ''sw2''), (''name'', TWO_CH)]"

definition plug_dev :: "(string \<times> pyval) list" where
  "plug_dev = [(''id'', PStr ''plug3''), (''name'', PStr ''Plug'')]"

definition ghost_dev :: "(string \<times> pyval) list" where
  "ghost_dev = [(''name'', PStr ''Ghost'')]"

definition lost_dev :: "(string \<times> pyval) list" where
  "lost_dev = [(''id'', PStr ''lost''), (''name'', PStr ''Lost'')]"

section \<open>Properties of the string functions\<close>






section \<open>Properties of the command handler\<close>



lemma filter_map_state_echo [simp]:
  "filter is_sendcommand (map (state_echo env d) cmds) = []"
  "filter is_publish (map (state_echo env d) cmds) = map (state_echo env d) cmds"
  by (induction cmds) (simp_all add: state_echo_def)






text \<open>
  Whatever the registry answers, CASE 1 sends its one command and then ends in an
  exception before any publish: the response and the state echo of lines 170-178 are
  never sent.
\<close>

lemma single_command_trace:
  "filter is_publish (fst (single_command env parts payload)) = []
   \<and> filter is_sendcommand (fst (single_command env parts payload)) =
       [SendCommand (parts ! 1) [(parts ! 2, command_value payload)]]
   \<and> snd (single_command env parts payload) \<noteq> None"
  by (simp add: single_command_def Let_def split: sum.splits)

lemma single_command_never_publishes:
  assumes "4 \<le> length (split_on CHR ''/'' topic)"
  shows "filter is_publish (on_message env topic payload) = []"
  using assms single_command_trace [of env "split_on CHR ''/'' topic" payload]
  by (auto simp: on_message_def split: prod.splits option.splits)

text \<open>
  C2. After a command whose dispatch succeeds, the handler is to publish a success
  result on \<open>tuya/{deviceID}/response\<close> and then, retained, the requested value on
  \<open>tuya/{deviceID}/{code}/state\<close>. For the single-attribute command \<open>ON\<close> on
  \<open>tuya/dev1/switch/set\<close>, accepted by the registry, the handler sends the command
  \<open>switch = true\<close>, prints the line of the success and then fails with
  UnboundLocalError: it publishes nothing, neither the response nor the state \<open>ON\<close>.
\<close>

theorem single_command_publishes_nothing:
  "on_message demo_env ''tuya/dev1/switch/set'' ''ON'' =
     [Print DebugTopic, Print DebugPayload, Print CommandReceived,
      SendCommand ''dev1'' [(''switch'', PBool True)],
      Print CommandSent, Print (HandlerError UnboundLocalError)]
   \<and> filter is_publish (on_message demo_env ''tuya/dev1/switch/set'' ''ON'') = []"
  by (simp add: on_message_def single_command_def command_value_def result_success_def
      dict_get_def demo_env_def str_upper_def upper_char_def)

text \<open>
  The batch path does what the claim says: after a successful dispatch the publishes
  are the success result on the response topic, then one retained state message per
  command of the batch, in order.
\<close>

lemma batch_success_echo:
  assumes "length (split_on CHR ''/'' topic) = 3"
    and "split_on CHR ''/'' topic ! 2 = ''set''"
    and "json_loads env payload = Inr (PDict items)"
    and "command_list env items \<noteq> []"
    and "sendcommand env (split_on CHR ''/'' topic ! 1) (command_list env items) = Inr (PDict result)"
    and "truthy (dict_get result ''success'' PNone)"
  shows "filter is_publish (on_message env topic payload) =
           Publish (response_topic (split_on CHR ''/'' topic ! 1)) (BatchSuccess (command_list env items)) False
           # map (state_echo env (split_on CHR ''/'' topic ! 1)) (command_list env items)"
  using assms by (simp add: on_message_def batch_command_def result_success_def Let_def)

lemma batch_success_echo_example:
  \<open>filter is_publish (on_message demo_env ''tuya/dev1/set'' ''{"switch_1":"on","countdown_1":60}'') =
     [Publish ''tuya/dev1/response'' (BatchSuccess [(''switch_1'', PBool True), (''countdown_1'', PInt 60)]) False,
      Publish ''tuya/dev1/switch_1/state'' (Text ''ON'') True,
      Publish ''tuya/dev1/countdown_1/state'' (Text ''60'') True]\<close>
  by (simp add: on_message_def batch_command_def result_success_def demo_env_def demo_loads_def
      startswith_def batch_value_def py_str_def str_upper_def upper_char_def str_int_def
      str_nat.simps digit_char_def dict_get_def state_echo_def state_val_def response_topic_def
      MQTT_TOPIC_PREFIX_def Let_def)




section \<open>Properties of the polling loop\<close>

lemma quiet_simps [simp]:
  "quiet []"
  "quiet (ev @ ev') = (quiet ev \<and> quiet ev')"
  "quiet (e # ev) = (\<not> is_insert e \<and> \<not> is_gate_line e \<and> quiet ev)"
  by (auto simp: quiet_def)

lemma process_item_quiet:
  "process_item env i dd item = (ev, r) \<Longrightarrow> quiet ev"
  by (auto simp: process_item_def split: pyval.splits option.splits sum.splits if_splits)

lemma process_items_quiet:
  "process_items env i dd items = (ev, r) \<Longrightarrow> quiet ev"
proof (induction items arbitrary: dd ev r)
  case Nil
  then show ?case by simp
next
  case (Cons item items)
  then show ?case
    by (auto split: prod.splits sum.splits dest: process_item_quiet)
qed

lemma process_status_no_collection:
  assumes "collection env = None"
    and "process_status env st i n data sl = (ev, r, st')"
  shows "st' = st \<and> quiet ev"
  using assms
  by (auto simp: process_status_def Let_def split: sum.splits prod.splits dest: process_items_quiet)

lemma process_device_no_collection:
  assumes "collection env = None"
    and "process_device env st device = (ev, r, st')"
  shows "st' = st \<and> quiet ev"
  using assms
  by (auto simp: process_device_def Let_def
      split: sum.splits pyval.splits option.splits prod.splits if_splits
      dest: process_status_no_collection)

lemma run_devices_no_collection:
  assumes "collection env = None"
    and "run_devices env st devices = (ev, r, st')"
  shows "st' = st \<and> quiet ev"
  using assms(2)
proof (induction devices arbitrary: st ev r st')
  case Nil
  then show ?case by simp
next
  case (Cons device devices)
  obtain ev1 r1 st1 where p: "process_device env st device = (ev1, r1, st1)"
    using prod_cases3 by blast
  have p1: "st1 = st \<and> quiet ev1"
    by (rule process_device_no_collection [OF assms(1) p])
  show ?case
  proof (cases r1)
    case None
    obtain ev2 r2 st2 where q: "run_devices env st1 devices = (ev2, r2, st2)"
      using prod_cases3 by blast
    have "st2 = st1 \<and> quiet ev2"
      by (rule Cons.IH [OF q])
    with Cons.prems p p1 None q show ?thesis by auto
  next
    case (Some e)
    with Cons.prems p p1 show ?thesis by simp
  qed
qed

lemma run_cycle_no_collection:
  assumes "collection env = None"
    and "run_cycle env st devices = (ev, st')"
  shows "st' = st \<and> quiet ev"
  using assms
  by (auto simp: run_cycle_def split: prod.splits option.splits dest: run_devices_no_collection)

lemma run_cycles_no_collection:
  assumes "\<forall>env \<in> set envs. collection env = None"
    and "run_cycles envs st devices = (ev, st')"
  shows "st' = st \<and> quiet ev"
  using assms
proof (induction envs arbitrary: st ev st')
  case Nil
  then show ?case by simp
next
  case (Cons env envs)
  obtain ev1 st1 where p: "run_cycle env st devices = (ev1, st1)" by force
  obtain ev2 st2 where q: "run_cycles envs st1 devices = (ev2, st2)" by force
  have "st1 = st \<and> quiet ev1"
    using run_cycle_no_collection [OF _ p] Cons.prems(1) by simp
  moreover have "st2 = st1 \<and> quiet ev2"
    using Cons.IH [OF _ q] Cons.prems(1) by simp
  ultimately show ?case
    using Cons.prems(2) p q by auto
qed


lemma py_str_collection [simp]: "py_str (env\<lparr>collection := c\<rparr>) v = py_str env v"
  by (simp add: py_str_def split: pyval.splits)

lemma format_value_collection [simp]: "format_value (env\<lparr>collection := c\<rparr>) v = format_value env v"
  by (simp add: format_value_def split: pyval.splits)

lemma topics_collection [simp]:
  "state_topic (env\<lparr>collection := c\<rparr>) i code = state_topic env i code"
  "telemetry_topic (env\<lparr>collection := c\<rparr>) i = telemetry_topic env i"
  "discovery_topic (env\<lparr>collection := c\<rparr>) i = discovery_topic env i"
  "command_topic (env\<lparr>collection := c\<rparr>) i = command_topic env i"
  by (simp_all add: state_topic_def telemetry_topic_def discovery_topic_def command_topic_def)

lemma process_item_collection [simp]:
  "process_item (env\<lparr>collection := c\<rparr>) i dd item = process_item env i dd item"
  by (simp add: process_item_def split: pyval.splits option.splits sum.splits)

lemma process_items_collection [simp]:
  "process_items (env\<lparr>collection := c\<rparr>) i dd items = process_items env i dd items"
  by (induction items arbitrary: dd) simp_all

lemma logging_gate_events:
  "logging_gate st n dd = (gev, st', b) \<Longrightarrow> filter is_publish gev = [] \<and> filter is_getstatus gev = []"
  by (auto simp: logging_gate_def Let_def split: if_splits option.splits prod.splits)

text \<open>The publishes and the outcome of the body for one device, written without the sink.\<close>

lemma process_status_publishes:
  "filter is_publish (fst (process_status env st i n data sl)) =
     (case py_iter sl of
        Inl e \<Rightarrow> []
      | Inr items \<Rightarrow>
          (case process_items env i [] items of
             (ev, Inl e) \<Rightarrow> filter is_publish ev
           | (ev, Inr dd) \<Rightarrow>
               filter is_publish ev @
               [Publish (telemetry_topic env i)
                  (Telemetry n i dd (time_time env i) (dict_get data ''t'' (PInt 0))) True,
                Publish (discovery_topic env i)
                  (Discovery n i (telemetry_topic env i) (command_topic env i)) True]))"
  by (auto simp: process_status_def Let_def split: sum.splits prod.splits option.splits
      dest: logging_gate_events)

lemma process_status_outcome:
  "fst (snd (process_status env st i n data sl)) =
     (case py_iter sl of
        Inl e \<Rightarrow> Some e
      | Inr items \<Rightarrow>
          (case process_items env i [] items of
             (ev, Inl e) \<Rightarrow> Some e
           | (ev, Inr dd) \<Rightarrow> None))"
  by (auto simp: process_status_def Let_def split: sum.splits prod.splits option.splits)

lemma process_status_collection:
  "filter is_publish (fst (process_status (env\<lparr>collection := c\<rparr>) st' i n data sl)) =
     filter is_publish (fst (process_status env st i n data sl))
   \<and> fst (snd (process_status (env\<lparr>collection := c\<rparr>) st' i n data sl)) =
     fst (snd (process_status env st i n data sl))"
  by (simp add: process_status_publishes process_status_outcome split: sum.splits prod.splits)

lemma process_device_collection:
  "filter is_publish (fst (process_device (env\<lparr>collection := c\<rparr>) st' device)) =
     filter is_publish (fst (process_device env st device))
   \<and> fst (snd (process_device (env\<lparr>collection := c\<rparr>) st' device)) =
     fst (snd (process_device env st device))"
proof -
  have "\<And>i n data sl.
      filter is_publish (fst (process_status (env\<lparr>collection := c\<rparr>) st' i n data sl)) =
      filter is_publish (fst (process_status env st i n data sl))"
    "\<And>i n data sl.
      fst (snd (process_status (env\<lparr>collection := c\<rparr>) st' i n data sl)) =
      fst (snd (process_status env st i n data sl))"
    using process_status_collection by blast+
  then show ?thesis
    by (simp add: process_device_def Let_def split_beta
        split: sum.splits pyval.splits option.splits)
qed

lemma run_devices_collection:
  "filter is_publish (fst (run_devices (env\<lparr>collection := c\<rparr>) st' devices)) =
     filter is_publish (fst (run_devices env st devices))
   \<and> fst (snd (run_devices (env\<lparr>collection := c\<rparr>) st' devices)) =
     fst (snd (run_devices env st devices))"
proof (induction devices arbitrary: st st')
  case Nil
  show ?case by simp
next
  case (Cons device devices)
  obtain ev1 r1 st1 where p: "process_device env st device = (ev1, r1, st1)"
    using prod_cases3 by blast
  obtain ev1' r1' st1' where p': "process_device (env\<lparr>collection := c\<rparr>) st' device = (ev1', r1', st1')"
    using prod_cases3 by blast
  have same: "filter is_publish ev1' = filter is_publish ev1" "r1' = r1"
    using process_device_collection [where env = env and c = c and st = st and device = device and st' = st'] p p' by simp_all
  show ?case
  proof (cases r1)
    case None
    with Cons.IH [where st = st1 and st' = st1'] p p' same show ?thesis
      by (simp add: split_beta)
  next
    case (Some e)
    with p p' same show ?thesis by simp
  qed
qed

lemma run_cycle_collection:
  "filter is_publish (fst (run_cycle (env\<lparr>collection := c\<rparr>) st' devices)) =
     filter is_publish (fst (run_cycle env st devices))"
proof -
  obtain ev r s where p: "run_devices env st devices = (ev, r, s)"
    using prod_cases3 by blast
  obtain ev' r' s' where p': "run_devices (env\<lparr>collection := c\<rparr>) st' devices = (ev', r', s')"
    using prod_cases3 by blast
  have "filter is_publish ev' = filter is_publish ev" "r' = r"
    using run_devices_collection [where env = env and c = c and st = st and devices = devices and st' = st'] p p' by simp_all
  then show ?thesis
    using p p' by (simp add: run_cycle_def split: option.splits)
qed

lemmas poll_simps = sink_down_env_def din_rail_items_def run_cycle_def process_device_def process_status_def process_item_def
  py_iter_def dict_get_def scale_def truediv_def state_topic_def telemetry_topic_def
  discovery_topic_def command_topic_def format_value_def py_str_def logging_gate_def
  poll_env_def demo_env_def demo_status_def demo_str_def din_rail_dev_def two_ch_dev_def
  plug_dev_def ghost_dev_def lost_dev_def DIN_RAIL_def TWO_CH_def MQTT_TOPIC_PREFIX_def
  has_result_def Let_def

text \<open>
  C10. A device entry without an id (more generally, with an id that is not truthy) is
  passed over without any effect: no registry call, no publish, no insert, no line, and
  the global is left alone. A device whose registry reply is not a mapping containing
  \<open>result\<close> leaves only the registry call in the trace: no publish of any kind, no
  insert, no line, no change of the global. In both cases the loop goes on with the next
  device.
\<close>

theorem skip_guards:
  "(\<not> truthy (dict_get device ''id'' PNone) \<longrightarrow>
      process_device env st device = ([], None, st)
      \<and> run_devices env st (device # devices) = run_devices env st devices)
   \<and> (truthy (dict_get device ''id'' PNone)
        \<and> getstatus env (dict_get device ''id'' PNone) = Inr data \<and> \<not> has_result data \<longrightarrow>
      process_device env st device = ([GetStatus (dict_get device ''id'' PNone)], None, st)
      \<and> run_devices env st (device # devices) =
          (case run_devices env st devices of
             (ev, r, st') \<Rightarrow> (GetStatus (dict_get device ''id'' PNone) # ev, r, st')))"
proof (intro conjI impI)
  assume a: "\<not> truthy (dict_get device ''id'' PNone)"
  then show p: "process_device env st device = ([], None, st)"
    by (simp add: process_device_def)
  show "run_devices env st (device # devices) = run_devices env st devices"
    by (simp add: p split: prod.splits)
next
  assume a: "truthy (dict_get device ''id'' PNone)
        \<and> getstatus env (dict_get device ''id'' PNone) = Inr data \<and> \<not> has_result data"
  then show p: "process_device env st device = ([GetStatus (dict_get device ''id'' PNone)], None, st)"
    by (auto simp: process_device_def has_result_def split: pyval.splits option.splits)
  show "run_devices env st (device # devices) =
          (case run_devices env st devices of
             (ev, r, st') \<Rightarrow> (GetStatus (dict_get device ''id'' PNone) # ev, r, st'))"
    by (simp add: p split: prod.splits)
qed

theorem skip_guards_witness:
  "process_device (poll_env False) (PBool True) ghost_dev = ([], None, PBool True)
   \<and> run_devices (poll_env False) (PBool True) [ghost_dev] = ([], None, PBool True)
   \<and> process_device (poll_env False) (PBool True) plug_dev = ([GetStatus (PStr ''plug3'')], None, PBool True)
   \<and> run_devices (poll_env False) (PBool True) [plug_dev, ghost_dev] =
       ([GetStatus (PStr ''plug3'')], None, PBool True)"
proof -
  have g: "\<not> truthy (dict_get ghost_dev ''id'' PNone)"
    by (simp add: poll_simps)
  have p: "truthy (dict_get plug_dev ''id'' PNone)
        \<and> getstatus (poll_env False) (dict_get plug_dev ''id'' PNone) =
            Inr (PDict [(''code'', PInt 1106), (''msg'', PStr ''permission deny''), (''success'', PBool False)])
        \<and> \<not> has_result (PDict [(''code'', PInt 1106), (''msg'', PStr ''permission deny''), (''success'', PBool False)])"
    by (simp add: poll_simps)
  have i: "dict_get plug_dev ''id'' PNone = PStr ''plug3''"
    by (simp add: poll_simps)
  show ?thesis
    using skip_guards [where device = ghost_dev and env = "poll_env False" and st = "PBool True"
        and devices = "[]"] g
      skip_guards [where device = plug_dev and env = "poll_env False" and st = "PBool True"
        and devices = "[ghost_dev]"
        and data = "PDict [(''code'', PInt 1106), (''msg'', PStr ''permission deny''), (''success'', PBool False)]"]
      p i
    by simp
qed


text \<open>
  C9. When there is no collection, over any number of poll cycles the global keeps its
  value, so it stays true from startup on; no insert is made and no line of the gate is
  printed. What a cycle publishes on the bus is what it publishes with a collection.
\<close>

theorem sink_unavailable:
  "((\<forall>env \<in> set envs. collection env = None) \<longrightarrow>
      snd (run_cycles envs st devices) = st
      \<and> snd (run_cycles envs din_rail_is_on_init devices) = PBool True
      \<and> filter is_insert (fst (run_cycles envs st devices)) = []
      \<and> filter is_gate_line (fst (run_cycles envs st devices)) = [])
   \<and> filter is_publish (fst (run_cycle (env\<lparr>collection := None\<rparr>) st devices)) =
       filter is_publish (fst (run_cycle (env\<lparr>collection := Some insert_one\<rparr>) st' devices))"
proof (intro conjI impI)
  assume a: "\<forall>env \<in> set envs. collection env = None"
  obtain ev s where p: "run_cycles envs st devices = (ev, s)" by force
  have "s = st \<and> quiet ev"
    by (rule run_cycles_no_collection [OF a p])
  then show "snd (run_cycles envs st devices) = st"
    and "filter is_insert (fst (run_cycles envs st devices)) = []"
    and "filter is_gate_line (fst (run_cycles envs st devices)) = []"
    using p by (simp_all add: quiet_def)
  obtain ev' s' where q: "run_cycles envs din_rail_is_on_init devices = (ev', s')" by force
  have "s' = din_rail_is_on_init \<and> quiet ev'"
    by (rule run_cycles_no_collection [OF a q])
  then show "snd (run_cycles envs din_rail_is_on_init devices) = PBool True"
    using q by (simp add: din_rail_is_on_init_def)
next
  have "filter is_publish (fst (run_cycle (env\<lparr>collection := None\<rparr>) st devices)) =
          filter is_publish (fst (run_cycle env st devices))"
    by (rule run_cycle_collection)
  moreover have "filter is_publish (fst (run_cycle (env\<lparr>collection := Some insert_one\<rparr>) st' devices)) =
          filter is_publish (fst (run_cycle env st devices))"
    by (rule run_cycle_collection)
  ultimately show "filter is_publish (fst (run_cycle (env\<lparr>collection := None\<rparr>) st devices)) =
       filter is_publish (fst (run_cycle (env\<lparr>collection := Some insert_one\<rparr>) st' devices))"
    by simp
qed

theorem sink_unavailable_witness:
  "snd (run_cycles [(poll_env False)\<lparr>collection := None\<rparr>, (poll_env True)\<lparr>collection := None\<rparr>]
          din_rail_is_on_init [din_rail_dev, two_ch_dev]) = PBool True
   \<and> filter is_insert
       (fst (run_cycles [(poll_env False)\<lparr>collection := None\<rparr>, (poll_env True)\<lparr>collection := None\<rparr>]
          din_rail_is_on_init [din_rail_dev, two_ch_dev])) = []
   \<and> snd (run_cycle (poll_env False) din_rail_is_on_init [din_rail_dev, two_ch_dev]) = PBool False"
proof -
  have a: "\<forall>env \<in> set [(poll_env False)\<lparr>collection := None\<rparr>, (poll_env True)\<lparr>collection := None\<rparr>].
             collection env = None"
    by simp
  have b: "snd (run_cycle (poll_env False) din_rail_is_on_init [din_rail_dev, two_ch_dev]) = PBool False"
    by (simp add: poll_simps din_rail_is_on_init_def)
  show ?thesis
    using sink_unavailable [where envs = "[(poll_env False)\<lparr>collection := None\<rparr>, (poll_env True)\<lparr>collection := None\<rparr>]"
        and st = din_rail_is_on_init and devices = "[din_rail_dev, two_ch_dev]"] a b
    by blast
qed

lemma quiet_no_insert: "quiet ev \<Longrightarrow> InsertOne d \<notin> set ev"
  by (auto simp: quiet_def filter_empty_conv)

lemma logging_gate_no_insert:
  "logging_gate st n dd = (gev, st', b) \<Longrightarrow> InsertOne d \<notin> set gev"
  by (auto simp: logging_gate_def Let_def split: if_splits option.splits prod.splits)

lemma process_status_insert:
  assumes c: "collection env = Some insert_one"
    and p: "process_status env st i n data sl = (ev, r, st')"
    and d: "InsertOne d \<in> set ev"
  shows "r = None \<and> Print (case insert_one d of None \<Rightarrow> Saved | Some e \<Rightarrow> SaveFailed e) \<in> set ev"
proof (cases "py_iter sl")
  case (Inl e)
  with p d show ?thesis by (auto simp: process_status_def)
next
  case (Inr items)
  obtain iev ir where pi: "process_items env i [] items = (iev, ir)" by force
  have qi: "InsertOne d \<notin> set iev"
    using process_items_quiet [OF pi] by (rule quiet_no_insert)
  show ?thesis
  proof (cases ir)
    case (Inl e)
    with p d Inr pi qi show ?thesis by (auto simp: process_status_def)
  next
    case ok: (Inr dd)
    obtain gev st1 b where g: "logging_gate st n dd = (gev, st1, b)"
      using prod_cases3 by blast
    have qg: "InsertOne d \<notin> set gev"
      using g by (rule logging_gate_no_insert)
    from p d c Inr pi ok g qi qg show ?thesis
      by (cases b) (auto simp: process_status_def Let_def)
  qed
qed

lemma process_device_cases:
  assumes "process_device env st device = (ev, r, st')"
  shows "(ev = [] \<and> r = None \<and> st' = st)
       \<or> (ev = [GetStatus (dict_get device ''id'' PNone)] \<and> st' = st)
       \<or> (\<exists>data sl ev1.
            process_status env st (dict_get device ''id'' PNone)
              (dict_get device ''name'' (PStr ''Unknown'')) data sl = (ev1, r, st')
            \<and> ev = GetStatus (dict_get device ''id'' PNone) # ev1)"
  using assms
  by (auto simp: process_device_def Let_def
      split: sum.splits pyval.splits option.splits prod.splits if_splits)

lemma process_device_insert:
  assumes c: "collection env = Some insert_one"
    and p: "process_device env st device = (ev, r, st')"
    and d: "InsertOne d \<in> set ev"
  shows "r = None \<and> Print (case insert_one d of None \<Rightarrow> Saved | Some e \<Rightarrow> SaveFailed e) \<in> set ev"
proof -
  from process_device_cases [OF p] d
  obtain data sl ev1 where
    s: "process_status env st (dict_get device ''id'' PNone)
          (dict_get device ''name'' (PStr ''Unknown'')) data sl = (ev1, r, st')"
    and e: "ev = GetStatus (dict_get device ''id'' PNone) # ev1"
    by auto
  have "InsertOne d \<in> set ev1"
    using d e by simp
  from process_status_insert [OF c s this] e show ?thesis
    by simp
qed

text \<open>
  C1, amended. A failure of the sink is caught for the device at hand: whenever the body
  made an insert, no exception leaves it, the outcome of the insert is printed (the
  failure, if it failed), and the loop goes on with the remaining devices. An exception
  raised by the registry's status call is not caught per device: it leaves the loop, the
  devices after the failing one are not visited in that cycle, the handler around the
  loop prints the error, and the next cycle starts over with the whole list.
\<close>

theorem cycle_failures:
  "(collection env = Some insert_one \<and> process_device env st device = (ev, r, st')
      \<and> InsertOne d \<in> set ev \<longrightarrow>
        r = None
        \<and> Print (case insert_one d of None \<Rightarrow> Saved | Some e \<Rightarrow> SaveFailed e) \<in> set ev
        \<and> run_devices env st (device # devices) =
            (case run_devices env st' devices of (ev', r', st'') \<Rightarrow> (ev @ ev', r', st'')))
   \<and> (truthy (dict_get device ''id'' PNone)
      \<and> getstatus env (dict_get device ''id'' PNone) = Inl e \<longrightarrow>
        run_devices env st (device # devices) = ([GetStatus (dict_get device ''id'' PNone)], Some e, st)
        \<and> run_cycle env st (device # devices) =
            ([GetStatus (dict_get device ''id'' PNone), Print (PollError e)], st)
        \<and> run_cycles (env # envs) st (device # devices) =
            (case run_cycles envs st (device # devices) of
               (ev', st'') \<Rightarrow>
                 (GetStatus (dict_get device ''id'' PNone) # Print (PollError e) # ev', st'')))"
proof (intro conjI impI)
  assume a: "collection env = Some insert_one \<and> process_device env st device = (ev, r, st')
      \<and> InsertOne d \<in> set ev"
  then have b: "r = None \<and> Print (case insert_one d of None \<Rightarrow> Saved | Some e \<Rightarrow> SaveFailed e) \<in> set ev"
    using process_device_insert by blast
  then show "r = None"
    and "Print (case insert_one d of None \<Rightarrow> Saved | Some e \<Rightarrow> SaveFailed e) \<in> set ev"
    by simp_all
  show "run_devices env st (device # devices) =
            (case run_devices env st' devices of (ev', r', st'') \<Rightarrow> (ev @ ev', r', st''))"
    using a b by simp
next
  assume a: "truthy (dict_get device ''id'' PNone)
      \<and> getstatus env (dict_get device ''id'' PNone) = Inl e"
  then have p: "process_device env st device = ([GetStatus (dict_get device ''id'' PNone)], Some e, st)"
    by (simp add: process_device_def)
  then show r: "run_devices env st (device # devices) = ([GetStatus (dict_get device ''id'' PNone)], Some e, st)"
    by simp
  show c: "run_cycle env st (device # devices) =
            ([GetStatus (dict_get device ''id'' PNone), Print (PollError e)], st)"
    by (simp add: run_cycle_def r del: run_devices.simps)
  show "run_cycles (env # envs) st (device # devices) =
            (case run_cycles envs st (device # devices) of
               (ev', st'') \<Rightarrow>
                 (GetStatus (dict_get device ''id'' PNone) # Print (PollError e) # ev', st''))"
    by (simp add: c split: prod.splits)
qed


theorem cycle_failures_witness:
  "fst (snd (process_device sink_down_env (PBool True) two_ch_dev)) = None
   \<and> Print (SaveFailed (ExternalError ''sink down''))
        \<in> set (fst (process_device sink_down_env (PBool True) two_ch_dev))
   \<and> filter is_getstatus (fst (run_devices sink_down_env (PBool True) [two_ch_dev, plug_dev])) =
        [GetStatus (PStr ''sw2''), GetStatus (PStr ''plug3'')]
   \<and> run_cycle sink_down_env (PBool True) [lost_dev, two_ch_dev] =
        ([GetStatus (PStr ''lost''), Print (PollError (ExternalError ''timeout''))], PBool True)"
proof -
  define ev where "ev = fst (process_device sink_down_env (PBool True) two_ch_dev)"
  define r where "r = fst (snd (process_device sink_down_env (PBool True) two_ch_dev))"
  define st' where "st' = snd (snd (process_device sink_down_env (PBool True) two_ch_dev))"
  define d where "d = \<lparr>doc_timestamp = 0, doc_device_id = PStr ''sw2'', doc_device_name = TWO_CH,
      doc_status = [(PStr ''switch_1'', PBool True)], doc_source = ''tuya_cloud_mqtt_bridge''\<rparr>"
  have c: "collection sink_down_env = Some (\<lambda>d. Some (ExternalError ''sink down''))"
    by (simp add: sink_down_env_def)
  have p: "process_device sink_down_env (PBool True) two_ch_dev = (ev, r, st')"
    by (simp add: ev_def r_def st'_def)
  have i: "InsertOne d \<in> set ev"
    by (simp add: ev_def d_def poll_simps)
  have s: "st' = PBool True"
    by (simp add: st'_def poll_simps)
  have l: "truthy (dict_get lost_dev ''id'' PNone)
      \<and> getstatus sink_down_env (dict_get lost_dev ''id'' PNone) = Inl (ExternalError ''timeout'')"
    by (simp add: poll_simps)
  have li: "dict_get lost_dev ''id'' PNone = PStr ''lost''"
    by (simp add: poll_simps)
  have rest: "run_devices sink_down_env (PBool True) [plug_dev] = ([GetStatus (PStr ''plug3'')], None, PBool True)"
    by (simp add: poll_simps)
  have g: "filter is_getstatus ev = [GetStatus (PStr ''sw2'')]"
    by (simp add: ev_def poll_simps)
  from cycle_failures [where env = sink_down_env and st = "PBool True" and device = two_ch_dev
      and ev = ev and r = r and st' = st' and d = d and devices = "[plug_dev]"
      and insert_one = "\<lambda>d. Some (ExternalError ''sink down'')"] c p i
  have a: "r = None \<and> Print (SaveFailed (ExternalError ''sink down'')) \<in> set ev
      \<and> run_devices sink_down_env (PBool True) [two_ch_dev, plug_dev] =
          (case run_devices sink_down_env st' [plug_dev] of (ev', r', st'') \<Rightarrow> (ev @ ev', r', st''))"
    by simp
  from cycle_failures [where env = sink_down_env and st = "PBool True" and device = lost_dev
      and devices = "[two_ch_dev]" and e = "ExternalError ''timeout''"] l li
  have b: "run_cycle sink_down_env (PBool True) [lost_dev, two_ch_dev] =
        ([GetStatus (PStr ''lost''), Print (PollError (ExternalError ''timeout''))], PBool True)"
    by simp
  show ?thesis
    using a b s rest g by (simp add: ev_def [symmetric] r_def [symmetric])
qed

text \<open>
  C1, as stated: after a failure raised by the status call of one device, the remaining
  devices of the cycle are still processed. With the device list \<open>lost\<close>, \<open>din1\<close>,
  the status call for \<open>lost\<close> times out and the cycle ends there: the status of
  \<open>din1\<close>, which the registry would answer, is never fetched.
\<close>

theorem getstatus_failure_ends_cycle:
  "run_cycle (poll_env True) (PBool True) [lost_dev, din_rail_dev] =
     ([GetStatus (PStr ''lost''), Print (PollError (ExternalError ''timeout''))], PBool True)
   \<and> filter is_getstatus (fst (run_cycle (poll_env True) (PBool True) [din_rail_dev])) =
       [GetStatus (PStr ''din1'')]"
  by (simp add: poll_simps)

section \<open>Scaling, the gate and the order of the devices\<close>

































end
